theory Spec2Isabelle
  imports Main "HOL-Library.Word"
begin

unbundle bit_operations_syntax

section \<open>The eDrawings preview addon (native/src/edrawings\_preview.cpp)\<close>

text \<open>
  The addon wraps an ActiveX control in a child window. Everything it does goes through
  Win32, COM and the N-API binding layer, so the embedding makes three things explicit:
  \<^item> the fields of \<open>class EDrawingsPreview\<close> as a record that every method takes and
    returns;
  \<^item> the answers of the operating system as a record of oracles, one record per method
    call (the system may answer differently each time);
  \<^item> the calls the code makes into the operating system as a list, in program order.
  Handles and interface pointers are 64-bit words with 0 for \<open>nullptr\<close> (the x64 build);
  an \<open>HRESULT\<close> is a signed 32-bit word.
\<close>

subsection \<open>Machine types\<close>

type_synonym HWND = "64 word"
type_synonym ptr = "64 word"
type_synonym HRESULT = "32 word"
type_synonym DISPID = "32 word"
type_synonym LSTATUS = "32 word"
type_synonym wstring = "16 word list"

text \<open>\<open>#define SUCCEEDED(hr) (((HRESULT)(hr)) >= 0)\<close> and \<open>FAILED(hr) (((HRESULT)(hr)) < 0)\<close>.\<close>

definition SUCCEEDED :: "HRESULT \<Rightarrow> bool" where
  "SUCCEEDED hr \<longleftrightarrow> 0 \<le> sint hr"

definition FAILED :: "HRESULT \<Rightarrow> bool" where
  "FAILED hr \<longleftrightarrow> sint hr < 0"

definition S_OK :: HRESULT where
  "S_OK = 0"

definition E_FAIL :: HRESULT where
  "E_FAIL = 0x80004005"

definition ERROR_SUCCESS :: LSTATUS where
  "ERROR_SUCCESS = 0"

definition ERROR_FILE_NOT_FOUND :: LSTATUS where
  "ERROR_FILE_NOT_FOUND = 2"

text \<open>A wide string literal \<open>L"..."\<close> of ASCII characters.\<close>

definition L :: "string \<Rightarrow> wstring" where
  "L s = map of_char s"

text \<open>A Windows path from its components, joined by backslashes.\<close>

fun win_path :: "string list \<Rightarrow> string" where
  "win_path [] = []"
| "win_path [c] = c"
| "win_path (c # cs) = c @ [CHR 0x5C] @ win_path cs"

subsection \<open>JavaScript values at the call boundary\<close>

text \<open>
  The arguments of a method call (\<open>Napi::CallbackInfo\<close>) are a list of JavaScript values.
  A JavaScript number is a double; its representation \<open>'n\<close> and the binding layer's
  conversions to machine integers are parameters of the model.
\<close>

datatype 'n js_value =
    JSUndefined
  | JSNull
  | JSBoolean bool
  | JSNumber 'n
  | JSString string
  | JSBuffer "8 word list"
  | JSObject

fun IsBuffer :: "'n js_value \<Rightarrow> bool" where
  "IsBuffer (JSBuffer b) = True"
| "IsBuffer v = False"

fun IsNumber :: "'n js_value \<Rightarrow> bool" where
  "IsNumber (JSNumber n) = True"
| "IsNumber v = False"

fun IsString :: "'n js_value \<Rightarrow> bool" where
  "IsString (JSString s) = True"
| "IsString v = False"

fun Utf8Value :: "'n js_value \<Rightarrow> string" where
  "Utf8Value (JSString s) = s"
| "Utf8Value v = []"

fun Data :: "'n js_value \<Rightarrow> 8 word list" where
  "Data (JSBuffer b) = b"
| "Data v = []"

text \<open>
  The binding layer (\<open>napi.h\<close>) is not part of this source file. \<open>Int64Value\<close> and
  \<open>Int32Value\<close> are its conversions of a JavaScript number to a machine integer.
  \<open>cpp_exceptions\<close> is its build mode: with C++ exceptions an error of the binding
  leaves the method at once; without them the error is left pending, the failed call
  yields 0 and the method runs on.
\<close>

record 'n napi =
  Int64Value :: "'n \<Rightarrow> 64 word"
  Int32Value :: "'n \<Rightarrow> 32 word"
  cpp_exceptions :: bool

text \<open>
  What a method hands back to JavaScript: the exception it has raised with
  \<open>ThrowAsJavaScriptException\<close>, if any, and the boolean of its \<open>return\<close> statement.
\<close>

record napi_ret =
  exception :: "string option"
  retval :: bool

definition returns :: "bool \<Rightarrow> napi_ret" where
  "returns b = \<lparr>exception = None, retval = b\<rparr>"

definition throws_TypeError :: "string \<Rightarrow> bool \<Rightarrow> napi_ret" where
  "throws_TypeError msg b = \<lparr>exception = Some msg, retval = b\<rparr>"

text \<open>
  \<open>info[i].As<Napi::Number>().Int32Value()\<close>: the cast does not look at the type of the
  value, and the conversion of a value that is not a number fails with the type error
  ``A number was expected'' and yields 0.
\<close>

fun As_Number_Int32Value :: "'n napi \<Rightarrow> 'n js_value \<Rightarrow> string option \<times> 32 word" where
  "As_Number_Int32Value napi (JSNumber n) = (None, Int32Value napi n)"
| "As_Number_Int32Value napi v = (Some ''A number was expected'', 0)"

text \<open>The first error among the results of several calls into the binding.\<close>

fun first_error :: "string option list \<Rightarrow> string option" where
  "first_error [] = None"
| "first_error (None # es) = first_error es"
| "first_error (Some e # es) = Some e"

text \<open>\<open>*reinterpret_cast<HWND*>(buf.Data())\<close>: the first eight bytes, little-endian.\<close>

fun le_bytes :: "8 word list \<Rightarrow> 64 word" where
  "le_bytes [] = 0"
| "le_bytes (b # bs) = ucast b OR push_bit 8 (le_bytes bs)"

definition read_HWND :: "8 word list \<Rightarrow> HWND" where
  "read_HWND buf = le_bytes (take 8 buf)"

subsection \<open>The operating system\<close>

text \<open>
  The calls the code makes, as they appear in the trace. String conversions and
  \<open>BSTR\<close> allocation touch only the addon's own memory and are not recorded.
\<close>

datatype os_call =
    Call_IsWindow HWND
  | Call_RegisterClassExW
  | Call_CreateWindowExW HWND
  | Call_CoCreateInstance
  | Call_QueryInterface ptr
  | Call_Release ptr
  | Call_DestroyWindow HWND
  | Call_GetIDsOfNames ptr string
  | Call_Invoke ptr DISPID string
  | Call_SetWindowPos HWND "32 word" "32 word" "32 word" "32 word"
  | Call_ShowWindow HWND bool
  | Call_PathFileExistsW wstring
  | Call_RegOpenKeyExW
  | Call_RegQueryValueExW
  | Call_RegCloseKey

text \<open>
  The system's answers during one method call. \<open>os_CreateWindowExW\<close> gives the new
  window for a parent (0 when creation fails); the COM entries give the \<open>HRESULT\<close>
  and the pointer the callee stores. The answers of \<open>SetWindowPos\<close>, \<open>ShowWindow\<close>
  and \<open>DestroyWindow\<close> are there although the code never reads them.
\<close>

record os_env =
  os_IsWindow :: "HWND \<Rightarrow> bool"
  os_CreateWindowExW :: "HWND \<Rightarrow> HWND"
  os_CoCreateInstance :: "HRESULT \<times> ptr"
  os_QueryInterface :: "ptr \<Rightarrow> HRESULT \<times> ptr"
  os_GetIDsOfNames :: "ptr \<Rightarrow> string \<Rightarrow> HRESULT \<times> DISPID"
  os_Invoke :: "ptr \<Rightarrow> DISPID \<Rightarrow> string \<Rightarrow> HRESULT"
  os_SetWindowPos :: bool
  os_ShowWindow :: bool
  os_DestroyWindow :: bool

text \<open>
  An out-parameter of a COM call. The COM contract of \<open>CoCreateInstance\<close> and of
  \<open>IUnknown::QueryInterface\<close> is that the callee stores \<open>NULL\<close> there when it fails;
  a success that stores \<open>NULL\<close> stays possible, as the code itself expects.
\<close>

definition com_out :: "HRESULT \<times> ptr \<Rightarrow> HRESULT \<times> ptr" where
  "com_out r = (fst r, if FAILED (fst r) then 0 else snd r)"

definition CoCreateInstance :: "os_env \<Rightarrow> HRESULT \<times> ptr" where
  "CoCreateInstance os = com_out (os_CoCreateInstance os)"

definition QueryInterface :: "os_env \<Rightarrow> ptr \<Rightarrow> HRESULT \<times> ptr" where
  "QueryInterface os p = com_out (os_QueryInterface os p)"

subsection \<open>The preview instance\<close>

record EDrawingsPreview =
  m_hwndParent :: HWND
  m_hwndContainer :: HWND
  m_pControl :: ptr
  m_pDispatch :: ptr
  m_isAttached :: bool
  m_isFileLoaded :: bool

text \<open>The member initialisers of the class: a freshly constructed instance.\<close>

definition new_EDrawingsPreview :: EDrawingsPreview where
  "new_EDrawingsPreview =
     \<lparr>m_hwndParent = 0, m_hwndContainer = 0, m_pControl = 0, m_pDispatch = 0,
      m_isAttached = False, m_isFileLoaded = False\<rparr>"

text \<open>\<open>bool EDrawingsPreview::CreateControl(HWND parentHwnd)\<close>\<close>

definition CreateControl ::
  "os_env \<Rightarrow> HWND \<Rightarrow> EDrawingsPreview \<Rightarrow> bool \<times> EDrawingsPreview \<times> os_call list" where
  "CreateControl os parentHwnd s =
     (if m_isAttached s then (True, s, [])
      else
        let h = os_CreateWindowExW os parentHwnd;
            s1 = s\<lparr>m_hwndContainer := h\<rparr>;
            t1 = [Call_RegisterClassExW, Call_CreateWindowExW parentHwnd]
        in if h = 0 then (False, s1, t1)
        else
          let (hr, p) = CoCreateInstance os;
              s2 = s1\<lparr>m_pControl := p\<rparr>;
              t2 = t1 @ [Call_CoCreateInstance]
          in if FAILED hr \<or> p = 0
             then (False, s2\<lparr>m_hwndContainer := 0\<rparr>, t2 @ [Call_DestroyWindow h])
          else
            let (hr', d) = QueryInterface os p;
                s3 = s2\<lparr>m_pDispatch := d\<rparr>;
                t3 = t2 @ [Call_QueryInterface p]
            in if FAILED hr'
               then (False, s3\<lparr>m_pControl := 0, m_hwndContainer := 0\<rparr>,
                     t3 @ [Call_Release p, Call_DestroyWindow h])
               else (True, s3\<lparr>m_hwndParent := parentHwnd, m_isAttached := True\<rparr>, t3))"

text \<open>\<open>void EDrawingsPreview::DestroyControl()\<close>\<close>

definition DestroyControl :: "EDrawingsPreview \<Rightarrow> EDrawingsPreview \<times> os_call list" where
  "DestroyControl s =
     (let t1 = (if m_pDispatch s \<noteq> 0 then [Call_Release (m_pDispatch s)] else []);
          s1 = (if m_pDispatch s \<noteq> 0 then s\<lparr>m_pDispatch := 0\<rparr> else s);
          t2 = (if m_pControl s1 \<noteq> 0 then [Call_Release (m_pControl s1)] else []);
          s2 = (if m_pControl s1 \<noteq> 0 then s1\<lparr>m_pControl := 0\<rparr> else s1);
          t3 = (if m_hwndContainer s2 \<noteq> 0 then [Call_DestroyWindow (m_hwndContainer s2)] else []);
          s3 = (if m_hwndContainer s2 \<noteq> 0 then s2\<lparr>m_hwndContainer := 0\<rparr> else s2)
      in (s3\<lparr>m_isAttached := False, m_isFileLoaded := False\<rparr>, t1 @ t2 @ t3))"

text \<open>
  \<open>Napi::Value EDrawingsPreview::AttachToWindow(const Napi::CallbackInfo& info)\<close>.
  The handle is read from a buffer of at least \<open>sizeof(HWND)\<close> bytes or from a number;
  any other value leaves it \<open>nullptr\<close>. \<open>!hwnd || !IsWindow(hwnd)\<close> asks the system
  only for a handle that is not null.
\<close>

definition hwnd_of_arg :: "'n napi \<Rightarrow> 'n js_value \<Rightarrow> HWND" where
  "hwnd_of_arg napi v =
     (if IsBuffer v then (if 8 \<le> length (Data v) then read_HWND (Data v) else 0)
      else if IsNumber v then (case v of JSNumber n \<Rightarrow> Int64Value napi n | _ \<Rightarrow> 0)
      else 0)"

definition AttachToWindow ::
  "'n napi \<Rightarrow> os_env \<Rightarrow> 'n js_value list \<Rightarrow> EDrawingsPreview
     \<Rightarrow> napi_ret \<times> EDrawingsPreview \<times> os_call list" where
  "AttachToWindow napi os info s =
     (if length info < 1
      then (throws_TypeError ''Window handle (HWND as number) expected'' False, s, [])
      else
        let hwnd = hwnd_of_arg napi (info ! 0)
        in if hwnd = 0 then (returns False, s, [])
           else if \<not> os_IsWindow os hwnd then (returns False, s, [Call_IsWindow hwnd])
           else
             let (b, s', t) = CreateControl os hwnd s
             in (returns b, s', Call_IsWindow hwnd # t))"

text \<open>\<open>Napi::Value EDrawingsPreview::LoadFile(const Napi::CallbackInfo& info)\<close>\<close>

definition LoadFile ::
  "os_env \<Rightarrow> 'n js_value list \<Rightarrow> EDrawingsPreview
     \<Rightarrow> napi_ret \<times> EDrawingsPreview \<times> os_call list" where
  "LoadFile os info s =
     (if \<not> m_isAttached s \<or> m_pDispatch s = 0 then (returns False, s, [])
      else if length info < 1 \<or> \<not> IsString (info ! 0)
      then (throws_TypeError ''File path expected'' False, s, [])
      else
        let filePath = Utf8Value (info ! 0);
            (hr, dispid) = os_GetIDsOfNames os (m_pDispatch s) ''OpenDoc'';
            t1 = [Call_GetIDsOfNames (m_pDispatch s) ''OpenDoc''];
            hr' = (if SUCCEEDED hr then os_Invoke os (m_pDispatch s) dispid filePath else hr);
            t2 = (if SUCCEEDED hr then t1 @ [Call_Invoke (m_pDispatch s) dispid filePath] else t1);
            s' = s\<lparr>m_isFileLoaded := SUCCEEDED hr'\<rparr>
        in (returns (m_isFileLoaded s'), s', t2))"

text \<open>
  \<open>Napi::Value EDrawingsPreview::SetBounds(const Napi::CallbackInfo& info)\<close>. The four
  conversions come before \<open>SetWindowPos\<close>. When one of them fails, a binding built with
  C++ exceptions leaves the method there; one built without them has the error pending
  while the method goes on to \<open>SetWindowPos\<close> and \<open>return true\<close>, and JavaScript gets
  the error.
\<close>

definition SetBounds ::
  "'n napi \<Rightarrow> os_env \<Rightarrow> 'n js_value list \<Rightarrow> EDrawingsPreview
     \<Rightarrow> napi_ret \<times> EDrawingsPreview \<times> os_call list" where
  "SetBounds napi os info s =
     (if m_hwndContainer s = 0 then (returns False, s, [])
      else if length info < 4
      then (throws_TypeError ''x, y, width, height expected'' False, s, [])
      else
        let (e0, x) = As_Number_Int32Value napi (info ! 0);
            (e1, y) = As_Number_Int32Value napi (info ! 1);
            (e2, width) = As_Number_Int32Value napi (info ! 2);
            (e3, height) = As_Number_Int32Value napi (info ! 3)
        in case first_error [e0, e1, e2, e3] of
             None \<Rightarrow> (returns True, s, [Call_SetWindowPos (m_hwndContainer s) x y width height])
           | Some msg \<Rightarrow>
               if cpp_exceptions napi then (throws_TypeError msg False, s, [])
               else (throws_TypeError msg True, s,
                     [Call_SetWindowPos (m_hwndContainer s) x y width height]))"

text \<open>\<open>Show\<close> and \<open>Hide\<close>: \<open>ShowWindow\<close> with \<open>SW_SHOW\<close> (True) or \<open>SW_HIDE\<close> (False).\<close>

definition Show :: "os_env \<Rightarrow> EDrawingsPreview \<Rightarrow> napi_ret \<times> EDrawingsPreview \<times> os_call list" where
  "Show os s =
     (if m_hwndContainer s \<noteq> 0
      then (returns True, s, [Call_ShowWindow (m_hwndContainer s) True])
      else (returns False, s, []))"

definition Hide :: "os_env \<Rightarrow> EDrawingsPreview \<Rightarrow> napi_ret \<times> EDrawingsPreview \<times> os_call list" where
  "Hide os s =
     (if m_hwndContainer s \<noteq> 0
      then (returns True, s, [Call_ShowWindow (m_hwndContainer s) False])
      else (returns False, s, []))"

definition Destroy :: "os_env \<Rightarrow> EDrawingsPreview \<Rightarrow> napi_ret \<times> EDrawingsPreview \<times> os_call list" where
  "Destroy os s = (let (s', t) = DestroyControl s in (returns True, s', t))"

definition IsLoaded :: "EDrawingsPreview \<Rightarrow> napi_ret \<times> EDrawingsPreview \<times> os_call list" where
  "IsLoaded s = (returns (m_isFileLoaded s), s, [])"

subsection \<open>Sequences of method calls\<close>

datatype 'n method_call =
    js_attachToWindow "'n js_value list"
  | js_loadFile "'n js_value list"
  | js_setBounds "'n js_value list"
  | js_show
  | js_hide
  | js_destroy
  | js_isLoaded

fun invoke ::
  "'n napi \<Rightarrow> os_env \<Rightarrow> 'n method_call \<Rightarrow> EDrawingsPreview
     \<Rightarrow> napi_ret \<times> EDrawingsPreview \<times> os_call list" where
  "invoke napi os (js_attachToWindow info) s = AttachToWindow napi os info s"
| "invoke napi os (js_loadFile info) s = LoadFile os info s"
| "invoke napi os (js_setBounds info) s = SetBounds napi os info s"
| "invoke napi os js_show s = Show os s"
| "invoke napi os js_hide s = Hide os s"
| "invoke napi os js_destroy s = Destroy os s"
| "invoke napi os js_isLoaded s = IsLoaded s"

text \<open>
  The instance after a sequence of calls, each with the system's answers during it,
  starting from a given state.
\<close>

fun run ::
  "'n napi \<Rightarrow> ('n method_call \<times> os_env) list \<Rightarrow> EDrawingsPreview \<Rightarrow> EDrawingsPreview" where
  "run napi [] s = s"
| "run napi ((c, os) # cs) s = run napi cs (fst (snd (invoke napi os c s)))"

text \<open>The instance a host can hold: a new one after any sequence of calls.\<close>

definition instance_after :: "'n napi \<Rightarrow> ('n method_call \<times> os_env) list \<Rightarrow> EDrawingsPreview" where
  "instance_after napi cs = run napi cs new_EDrawingsPreview"

subsection \<open>Installation discovery\<close>

text \<open>
  \<open>Napi::Value CheckEDrawingsInstalled(const Napi::CallbackInfo& info)\<close>. The file system
  and the registry answer through oracles: whether a path exists, the status of opening
  \<open>HKLM\SOFTWARE\SolidWorks\eDrawings\General\<close> for reading, and the status and value
  of querying \<open>InstallPath\<close> under it. The conversion of a wide string to UTF-8
  (\<open>WideCharToMultiByte\<close>) is a parameter.
\<close>

record sys_env =
  sys_PathFileExistsW :: "wstring \<Rightarrow> bool"
  sys_RegOpenKeyExW :: LSTATUS
  sys_RegQueryValueExW :: "LSTATUS \<times> wstring"

record install_info =
  installed :: bool
  path :: "string option"

definition paths :: "wstring list" where
  "paths =
     [L (win_path [''C:'', ''Program Files'', ''SOLIDWORKS Corp'', ''eDrawings'', ''eDrawings.exe'']),
      L (win_path [''C:'', ''Program Files'', ''eDrawings'', ''eDrawings.exe'']),
      L (win_path [''C:'', ''Program Files (x86)'', ''eDrawings'', ''eDrawings.exe'']),
      L (win_path [''C:'', ''Program Files'', ''SOLIDWORKS Corp'', ''SOLIDWORKS'', ''eDrawings'',
                   ''eDrawings.exe''])]"

text \<open>The \<open>for\<close> loop over the paths: it stops at the first path that exists.\<close>

fun probe_paths :: "(wstring \<Rightarrow> bool) \<Rightarrow> wstring list \<Rightarrow> wstring option \<times> os_call list" where
  "probe_paths ex [] = (None, [])"
| "probe_paths ex (p # ps) =
     (if ex p then (Some p, [Call_PathFileExistsW p])
      else let (r, t) = probe_paths ex ps in (r, Call_PathFileExistsW p # t))"

definition CheckEDrawingsInstalled ::
  "(wstring \<Rightarrow> string) \<Rightarrow> sys_env \<Rightarrow> install_info \<times> os_call list" where
  "CheckEDrawingsInstalled utf8 env =
     (case probe_paths (sys_PathFileExistsW env) paths of
        (Some p, t) \<Rightarrow> (\<lparr>installed = True, path = Some (utf8 p)\<rparr>, t)
      | (None, t) \<Rightarrow>
          if sys_RegOpenKeyExW env = ERROR_SUCCESS
          then
            let (st, installPath) = sys_RegQueryValueExW env;
                t' = t @ [Call_RegOpenKeyExW, Call_RegQueryValueExW, Call_RegCloseKey]
            in if st = ERROR_SUCCESS
               then (\<lparr>installed = True, path = Some (utf8 installPath)\<rparr>, t')
               else (\<lparr>installed = False, path = None\<rparr>, t')
          else (\<lparr>installed = False, path = None\<rparr>, t @ [Call_RegOpenKeyExW]))"

text \<open>The calls that only read the system.\<close>

fun is_query :: "os_call \<Rightarrow> bool" where
  "is_query (Call_IsWindow h) = True"
| "is_query (Call_PathFileExistsW p) = True"
| "is_query Call_RegOpenKeyExW = True"
| "is_query Call_RegQueryValueExW = True"
| "is_query Call_RegCloseKey = True"
| "is_query c = False"

subsection \<open>States and scenarios\<close>

text \<open>The Unattached state: not attached, no container window, no control, no dispatch.\<close>

definition Unattached :: "EDrawingsPreview \<Rightarrow> bool" where
  "Unattached s \<longleftrightarrow>
     \<not> m_isAttached s \<and> m_hwndContainer s = 0 \<and> m_pControl s = 0 \<and> m_pDispatch s = 0"

text \<open>
  The shape every method keeps: an instance that is not attached holds nothing, an
  attached one holds its window and its control, and a loaded one its dispatch interface.
\<close>

definition consistent :: "EDrawingsPreview \<Rightarrow> bool" where
  "consistent s \<longleftrightarrow>
     (if m_isAttached s
      then m_hwndContainer s \<noteq> 0 \<and> m_pControl s \<noteq> 0 \<and> (m_pDispatch s = 0 \<longrightarrow> \<not> m_isFileLoaded s)
      else m_hwndContainer s = 0 \<and> m_pControl s = 0 \<and> m_pDispatch s = 0 \<and> \<not> m_isFileLoaded s)"

text \<open>
  Concrete scenarios. Numbers are integers converted by truncation to the word size, in a
  binding built without C++ exceptions.
  In \<open>os_ok\<close> the window 0x1234 is live and every call succeeds; the others differ
  from it in one answer.
\<close>

definition napi_int :: "int napi" where
  "napi_int =
     \<lparr>Int64Value = word_of_int, Int32Value = word_of_int, cpp_exceptions = False\<rparr>"

definition os_ok :: os_env where
  "os_ok =
     \<lparr>os_IsWindow = (\<lambda>h. h = 0x1234),
      os_CreateWindowExW = (\<lambda>parent. 0x5678),
      os_CoCreateInstance = (S_OK, 0x1000),
      os_QueryInterface = (\<lambda>p. (S_OK, 0x2000)),
      os_GetIDsOfNames = (\<lambda>p name. (S_OK, 1)),
      os_Invoke = (\<lambda>p d arg. S_OK),
      os_SetWindowPos = True,
      os_ShowWindow = True,
      os_DestroyWindow = True\<rparr>"

definition os_no_dispatch :: os_env where
  "os_no_dispatch = os_ok\<lparr>os_QueryInterface := (\<lambda>p. (E_FAIL, 0))\<rparr>"

definition os_null_dispatch :: os_env where
  "os_null_dispatch = os_ok\<lparr>os_QueryInterface := (\<lambda>p. (S_OK, 0))\<rparr>"

definition os_load_fails :: os_env where
  "os_load_fails = os_ok\<lparr>os_Invoke := (\<lambda>p d arg. E_FAIL)\<rparr>"

definition os_resize_fails :: os_env where
  "os_resize_fails = os_ok\<lparr>os_SetWindowPos := False\<rparr>"

definition part_file :: string where
  "part_file = win_path [''C:'', ''part.SLDPRT'']"

text \<open>A new instance attached to the live window, and the same with a file loaded.\<close>

definition attached_instance :: EDrawingsPreview where
  "attached_instance = instance_after napi_int [(js_attachToWindow [JSNumber 0x1234], os_ok)]"

definition loaded_instance :: EDrawingsPreview where
  "loaded_instance =
     instance_after napi_int
       [(js_attachToWindow [JSNumber 0x1234], os_ok), (js_loadFile [JSString part_file], os_ok)]"

definition ascii :: "wstring \<Rightarrow> string" where
  "ascii w = map (\<lambda>c. char_of (unat c)) w"

definition sys_none :: sys_env where
  "sys_none =
     \<lparr>sys_PathFileExistsW = (\<lambda>p. False),
      sys_RegOpenKeyExW = ERROR_FILE_NOT_FOUND,
      sys_RegQueryValueExW = (ERROR_FILE_NOT_FOUND, [])\<rparr>"

definition sys_third :: sys_env where
  "sys_third = sys_none\<lparr>sys_PathFileExistsW := (\<lambda>p. p = paths ! 2 \<or> p = paths ! 3)\<rparr>"

definition sys_registry :: sys_env where
  "sys_registry =
     sys_none\<lparr>sys_RegOpenKeyExW := ERROR_SUCCESS,
              sys_RegQueryValueExW := (ERROR_SUCCESS, L (win_path [''D:'', ''eDrawings'']))\<rparr>"

section \<open>Properties\<close>

subsection \<open>The scenarios, evaluated\<close>

lemma attached_instance_eq:
  "attached_instance =
     \<lparr>m_hwndParent = 0x1234, m_hwndContainer = 0x5678, m_pControl = 0x1000, m_pDispatch = 0x2000,
      m_isAttached = True, m_isFileLoaded = False\<rparr>"
  by (simp add: attached_instance_def instance_after_def AttachToWindow_def CreateControl_def
      hwnd_of_arg_def napi_int_def os_ok_def new_EDrawingsPreview_def CoCreateInstance_def
      QueryInterface_def com_out_def FAILED_def S_OK_def Let_def)

lemma loaded_instance_eq:
  "loaded_instance =
     \<lparr>m_hwndParent = 0x1234, m_hwndContainer = 0x5678, m_pControl = 0x1000, m_pDispatch = 0x2000,
      m_isAttached = True, m_isFileLoaded = True\<rparr>"
  by (simp add: loaded_instance_def instance_after_def AttachToWindow_def CreateControl_def
      hwnd_of_arg_def napi_int_def os_ok_def new_EDrawingsPreview_def CoCreateInstance_def
      QueryInterface_def com_out_def FAILED_def SUCCEEDED_def S_OK_def Let_def LoadFile_def)

lemma destroyed_instance_eq:
  "instance_after napi_int [(js_attachToWindow [JSNumber 0x1234], os_ok), (js_destroy, os_ok)] =
     \<lparr>m_hwndParent = 0x1234, m_hwndContainer = 0, m_pControl = 0, m_pDispatch = 0,
      m_isAttached = False, m_isFileLoaded = False\<rparr>"
  using attached_instance_eq
  by (simp add: attached_instance_def instance_after_def Destroy_def DestroyControl_def Let_def)

subsection \<open>Every method keeps the instance consistent\<close>

lemma new_consistent: "consistent new_EDrawingsPreview"
  by (simp add: consistent_def new_EDrawingsPreview_def)

lemma CreateControl_consistent:
  "consistent s \<Longrightarrow> consistent (fst (snd (CreateControl os h s)))"
  by (auto simp: CreateControl_def consistent_def Let_def CoCreateInstance_def QueryInterface_def
      com_out_def split: prod.splits if_splits)

lemma DestroyControl_consistent: "consistent (fst (DestroyControl s))"
  by (simp add: DestroyControl_def consistent_def Let_def)

lemma AttachToWindow_consistent:
  "consistent s \<Longrightarrow> consistent (fst (snd (AttachToWindow napi os info s)))"
  using CreateControl_consistent [of s os "hwnd_of_arg napi (info ! 0)"]
  by (auto simp: AttachToWindow_def Let_def split: prod.splits)

lemma LoadFile_consistent:
  "consistent s \<Longrightarrow> consistent (fst (snd (LoadFile os info s)))"
  by (auto simp: LoadFile_def consistent_def Let_def split: prod.splits if_splits)

lemma SetBounds_state: "fst (snd (SetBounds napi os info s)) = s"
  by (simp add: SetBounds_def case_prod_beta split: option.splits)

lemma invoke_consistent:
  "consistent s \<Longrightarrow> consistent (fst (snd (invoke napi os c s)))"
proof (cases c)
  case js_destroy
  then show ?thesis
    using DestroyControl_consistent [of s] by (simp add: Destroy_def split: prod.splits)
qed (simp_all add: AttachToWindow_consistent LoadFile_consistent SetBounds_state Show_def
      Hide_def IsLoaded_def Let_def)

lemma run_consistent: "consistent s \<Longrightarrow> consistent (run napi cs s)"
  by (induction cs arbitrary: s) (auto simp: invoke_consistent)

lemma instance_after_consistent: "consistent (instance_after napi cs)"
  by (simp add: instance_after_def run_consistent new_consistent)

lemma instance_after_unattached:
  "\<not> m_isAttached (instance_after napi cs) \<Longrightarrow> Unattached (instance_after napi cs)"
  using instance_after_consistent [of napi cs] by (simp add: consistent_def Unattached_def)

subsection \<open>The state invariant\<close>

text \<open>
  Claim C1. After every operation of every sequence of calls on a new instance (the
  instance after the first \<open>n\<close> calls, for every \<open>n\<close>): the dispatch reference is
  non-null only if the control reference is, the container window handle is non-null only
  if the attached flag is true, and the file-loaded flag is true only if the attached flag
  is true.
\<close>

theorem state_invariant:
  "(m_pDispatch (instance_after napi (take n cs)) \<noteq> 0
      \<longrightarrow> m_pControl (instance_after napi (take n cs)) \<noteq> 0) \<and>
   (m_hwndContainer (instance_after napi (take n cs)) \<noteq> 0
      \<longrightarrow> m_isAttached (instance_after napi (take n cs))) \<and>
   (m_isFileLoaded (instance_after napi (take n cs))
      \<longrightarrow> m_isAttached (instance_after napi (take n cs)))"
  using instance_after_consistent [of napi "take n cs"]
  by (auto simp: consistent_def split: if_splits)

theorem state_invariant_witness:
  "m_pDispatch loaded_instance \<noteq> 0 \<and> m_hwndContainer loaded_instance \<noteq> 0 \<and>
   m_isFileLoaded loaded_instance \<and> m_pControl loaded_instance \<noteq> 0 \<and>
   m_isAttached loaded_instance"
proof -
  have pre: "m_pDispatch loaded_instance \<noteq> 0 \<and> m_hwndContainer loaded_instance \<noteq> 0 \<and>
      m_isFileLoaded loaded_instance"
    by (simp add: loaded_instance_eq)
  from state_invariant [of napi_int 2
      "[(js_attachToWindow [JSNumber 0x1234], os_ok), (js_loadFile [JSString part_file], os_ok),
        (js_destroy, os_ok)]"] pre
  show ?thesis by (simp add: loaded_instance_def)
qed

subsection \<open>Calls on an instance that is not attached\<close>

text \<open>
  Claim C7. On an instance that is not attached, \<open>loadFile\<close> returns false whatever its
  arguments, makes no call at all (so neither \<open>GetIDsOfNames\<close> nor \<open>Invoke\<close>), and
  leaves the state as it was.
\<close>

theorem LoadFile_unattached:
  "\<not> m_isAttached s \<Longrightarrow> LoadFile os info s = (returns False, s, [])"
  by (simp add: LoadFile_def)

theorem LoadFile_unattached_witness:
  "\<not> m_isAttached new_EDrawingsPreview \<and>
   LoadFile os_ok [JSString part_file :: int js_value] new_EDrawingsPreview =
     (returns False, new_EDrawingsPreview, [])"
proof -
  have "\<not> m_isAttached new_EDrawingsPreview" by (simp add: new_EDrawingsPreview_def)
  then show ?thesis using LoadFile_unattached [of new_EDrawingsPreview os_ok "[JSString part_file]"]
    by simp
qed

text \<open>
  Claim C8. On an instance that is not attached (a new instance after any calls, with the
  attached flag false: no attach has succeeded, or destroy came after it), \<open>setBounds\<close>,
  \<open>show\<close> and \<open>hide\<close> each return false and make no call: no \<open>SetWindowPos\<close> and no
  \<open>ShowWindow\<close>.
\<close>

theorem unattached_window_operations:
  "\<not> m_isAttached (instance_after napi cs) \<Longrightarrow>
     SetBounds napi os info (instance_after napi cs) = (returns False, instance_after napi cs, []) \<and>
     Show os (instance_after napi cs) = (returns False, instance_after napi cs, []) \<and>
     Hide os (instance_after napi cs) = (returns False, instance_after napi cs, [])"
  using instance_after_unattached [of napi cs]
  by (simp add: Unattached_def SetBounds_def Show_def Hide_def)

theorem unattached_window_operations_witness:
  "\<not> m_isAttached
       (instance_after napi_int [(js_attachToWindow [JSNumber 0x1234], os_ok), (js_destroy, os_ok)]) \<and>
   fst (SetBounds napi_int os_ok [JSNumber 0, JSNumber 0, JSNumber 800, JSNumber 600]
       (instance_after napi_int [(js_attachToWindow [JSNumber 0x1234], os_ok), (js_destroy, os_ok)]))
     = returns False \<and>
   snd (snd (Show os_ok
       (instance_after napi_int [(js_attachToWindow [JSNumber 0x1234], os_ok), (js_destroy, os_ok)])))
     = [] \<and>
   fst (Hide os_ok
       (instance_after napi_int [(js_attachToWindow [JSNumber 0x1234], os_ok), (js_destroy, os_ok)]))
     = returns False"
proof -
  have pre: "\<not> m_isAttached
       (instance_after napi_int [(js_attachToWindow [JSNumber 0x1234], os_ok), (js_destroy, os_ok)])"
    by (simp add: destroyed_instance_eq)
  from unattached_window_operations [OF pre, of os_ok
      "[JSNumber 0, JSNumber 0, JSNumber 800, JSNumber 600]"] pre
  show ?thesis by simp
qed

subsection \<open>Resizing an attached instance\<close>

lemma As_Number_error:
  "fst (As_Number_Int32Value napi v) = (if IsNumber v then None else Some ''A number was expected'')"
  by (cases v) simp_all

lemma SetBounds_conversions:
  "first_error [fst (As_Number_Int32Value napi a), fst (As_Number_Int32Value napi b),
                fst (As_Number_Int32Value napi c), fst (As_Number_Int32Value napi d)] =
     (if IsNumber a \<and> IsNumber b \<and> IsNumber c \<and> IsNumber d then None
      else Some ''A number was expected'')"
  by (simp add: As_Number_error)

lemma SetBounds_numbers:
  assumes "m_hwndContainer s \<noteq> 0" and "4 \<le> length info"
    and "IsNumber (info ! 0) \<and> IsNumber (info ! 1) \<and> IsNumber (info ! 2) \<and> IsNumber (info ! 3)"
  shows "SetBounds napi os info s =
       (returns True, s,
        [Call_SetWindowPos (m_hwndContainer s)
           (snd (As_Number_Int32Value napi (info ! 0))) (snd (As_Number_Int32Value napi (info ! 1)))
           (snd (As_Number_Int32Value napi (info ! 2))) (snd (As_Number_Int32Value napi (info ! 3)))])"
  using assms SetBounds_conversions [of napi "info ! 0" "info ! 1" "info ! 2" "info ! 3"]
  by (simp add: SetBounds_def case_prod_beta)

lemma SetBounds_not_numbers:
  assumes "m_hwndContainer s \<noteq> 0" and "4 \<le> length info"
    and "\<not> (IsNumber (info ! 0) \<and> IsNumber (info ! 1) \<and> IsNumber (info ! 2) \<and> IsNumber (info ! 3))"
  shows "exception (fst (SetBounds napi os info s)) = Some ''A number was expected'' \<and>
         fst (snd (SetBounds napi os info s)) = s"
proof -
  have "first_error [fst (As_Number_Int32Value napi (info ! 0)),
        fst (As_Number_Int32Value napi (info ! 1)), fst (As_Number_Int32Value napi (info ! 2)),
        fst (As_Number_Int32Value napi (info ! 3))] = Some ''A number was expected''"
    using assms(3) by (simp only: SetBounds_conversions if_False)
  with assms(1,2) show ?thesis
    by (simp add: SetBounds_def case_prod_beta throws_TypeError_def)
qed

text \<open>
  Claim C10, as stated, asks that \<open>setBounds\<close> with four arguments returns true on an
  attached instance unconditionally. With four arguments that are not numbers the call
  raises the type error of the failed conversion, in either build of the binding.
\<close>

theorem SetBounds_non_number_raises:
  "m_isAttached attached_instance \<and>
   exception (fst (SetBounds napi_int os_ok
       [JSString ''a'', JSString ''b'', JSString ''c'', JSString ''d''] attached_instance)) =
     Some ''A number was expected'' \<and>
   exception (fst (SetBounds (napi_int\<lparr>cpp_exceptions := True\<rparr>) os_ok
       [JSString ''a'', JSString ''b'', JSString ''c'', JSString ''d''] attached_instance)) =
     Some ''A number was expected''"
  by (simp add: attached_instance_eq SetBounds_def napi_int_def throws_TypeError_def)

text \<open>
  Claim C10, amended. On an attached instance, \<open>setBounds\<close> with four arguments (or more)
  of which the first four are numbers returns true without raising and asks for one
  \<open>SetWindowPos\<close> on the container window, whatever the system answers: the result is the
  same for every \<open>os\<close>, so it does not tell whether the window was moved. When one of the
  first four arguments is not a number the call raises a type error instead, and the
  instance is unchanged.
\<close>

theorem SetBounds_attached:
  "m_isAttached (instance_after napi cs) \<Longrightarrow> 4 \<le> length info \<Longrightarrow>
     (IsNumber (info ! 0) \<and> IsNumber (info ! 1) \<and> IsNumber (info ! 2) \<and> IsNumber (info ! 3) \<longrightarrow>
        SetBounds napi os info (instance_after napi cs) =
          (returns True, instance_after napi cs,
           [Call_SetWindowPos (m_hwndContainer (instance_after napi cs))
              (snd (As_Number_Int32Value napi (info ! 0)))
              (snd (As_Number_Int32Value napi (info ! 1)))
              (snd (As_Number_Int32Value napi (info ! 2)))
              (snd (As_Number_Int32Value napi (info ! 3)))])) \<and>
     (\<not> (IsNumber (info ! 0) \<and> IsNumber (info ! 1) \<and> IsNumber (info ! 2) \<and> IsNumber (info ! 3)) \<longrightarrow>
        exception (fst (SetBounds napi os info (instance_after napi cs))) =
          Some ''A number was expected'' \<and>
        fst (snd (SetBounds napi os info (instance_after napi cs))) = instance_after napi cs)"
proof -
  assume "m_isAttached (instance_after napi cs)" and len: "4 \<le> length info"
  then have window: "m_hwndContainer (instance_after napi cs) \<noteq> 0"
    using instance_after_consistent [of napi cs] by (simp add: consistent_def)
  show ?thesis
    using SetBounds_numbers [OF window len] SetBounds_not_numbers [OF window len] by blast
qed

theorem SetBounds_attached_witness:
  "m_isAttached attached_instance \<and> \<not> os_SetWindowPos os_resize_fails \<and>
   SetBounds napi_int os_resize_fails [JSNumber 10, JSNumber 20, JSNumber 800, JSNumber 600]
       attached_instance =
     (returns True, attached_instance, [Call_SetWindowPos 0x5678 10 20 800 600]) \<and>
   \<not> IsNumber ([JSNumber 10, JSString ''wide'', JSNumber 800, JSNumber (600::int)] ! 1) \<and>
   exception (fst (SetBounds napi_int os_ok [JSNumber 10, JSString ''wide'', JSNumber 800, JSNumber 600]
       attached_instance)) = Some ''A number was expected''"
proof -
  have pre: "m_isAttached attached_instance" by (simp add: attached_instance_eq)
  have len: "4 \<le> length [JSNumber 10, JSNumber 20, JSNumber 800, JSNumber (600::int)]" by simp
  have len': "4 \<le> length [JSNumber 10, JSString ''wide'', JSNumber 800, JSNumber (600::int)]" by simp
  have answer: "\<not> os_SetWindowPos os_resize_fails" by (simp add: os_resize_fails_def)
  have window: "m_hwndContainer attached_instance = 0x5678" by (simp add: attached_instance_eq)
  have numbers: "Int32Value napi_int n = word_of_int n" for n
    by (simp add: napi_int_def)
  note inst = SetBounds_attached [OF pre [unfolded attached_instance_def],
      folded attached_instance_def]
  from inst [OF len, of os_resize_fails]
  have moved: "SetBounds napi_int os_resize_fails [JSNumber 10, JSNumber 20, JSNumber 800, JSNumber 600]
       attached_instance =
     (returns True, attached_instance, [Call_SetWindowPos 0x5678 10 20 800 600])"
    by (simp add: window numbers)
  from inst [OF len', of os_ok]
  have raised: "exception (fst (SetBounds napi_int os_ok
       [JSNumber 10, JSString ''wide'', JSNumber 800, JSNumber 600] attached_instance)) =
     Some ''A number was expected''"
    by simp
  from pre answer moved raised show ?thesis by simp
qed

subsection \<open>Destroying\<close>

text \<open>
  Claim C6, as stated, asks that after \<open>destroy\<close> all handles are null. The parent
  window handle is not: \<open>DestroyControl\<close> leaves \<open>m_hwndParent\<close> as the last successful
  attach set it, here after one destroy and after a second.
\<close>

theorem Destroy_keeps_parent_handle:
  "fst (Destroy os_ok attached_instance) = returns True \<and>
   fst (Destroy os_ok (fst (snd (Destroy os_ok attached_instance)))) = returns True \<and>
   m_hwndParent (fst (snd (Destroy os_ok (fst (snd (Destroy os_ok attached_instance)))))) \<noteq> 0"
  by (simp add: attached_instance_eq Destroy_def DestroyControl_def Let_def)

text \<open>
  Claim C6, amended. In any state \<open>destroy\<close> returns true and leaves the flags false
  and the container window handle, the control reference and the dispatch reference null;
  the borrowed parent window handle keeps its value. A further \<open>destroy\<close> returns true
  again, makes no call and leaves that state unchanged.
\<close>

theorem Destroy_idempotent:
  "fst (Destroy os s) = returns True \<and>
   \<not> m_isAttached (fst (snd (Destroy os s))) \<and>
   \<not> m_isFileLoaded (fst (snd (Destroy os s))) \<and>
   m_hwndContainer (fst (snd (Destroy os s))) = 0 \<and>
   m_pControl (fst (snd (Destroy os s))) = 0 \<and>
   m_pDispatch (fst (snd (Destroy os s))) = 0 \<and>
   m_hwndParent (fst (snd (Destroy os s))) = m_hwndParent s \<and>
   Destroy os' (fst (snd (Destroy os s))) = (returns True, fst (snd (Destroy os s)), [])"
  by (simp add: Destroy_def DestroyControl_def Let_def)

subsection \<open>Attaching\<close>

text \<open>
  Claim C2, as stated, asks that \<open>attachToWindow\<close> with a null handle leaves any
  instance Unattached. On an attached instance it returns false and the instance stays
  attached, with its container window.
\<close>

theorem AttachToWindow_invalid_handle_keeps_attached:
  "hwnd_of_arg napi_int (JSNumber 0) = 0 \<and>
   fst (AttachToWindow napi_int os_ok [JSNumber 0] attached_instance) = returns False \<and>
   m_isAttached (fst (snd (AttachToWindow napi_int os_ok [JSNumber 0] attached_instance))) \<and>
   m_hwndContainer (fst (snd (AttachToWindow napi_int os_ok [JSNumber 0] attached_instance))) \<noteq> 0"
  by (simp add: AttachToWindow_def hwnd_of_arg_def napi_int_def attached_instance_eq)

text \<open>
  Claim C2, amended. \<open>attachToWindow\<close> with a handle that is null or not a live window
  returns false and leaves the instance as it was, calling nothing but \<open>IsWindow\<close>: an
  instance that was not attached is Unattached afterwards (attached flag false, no
  container window, no control or dispatch reference).
\<close>

theorem AttachToWindow_invalid_handle:
  assumes "info \<noteq> []"
    and "hwnd_of_arg napi (info ! 0) = 0 \<or> \<not> os_IsWindow os (hwnd_of_arg napi (info ! 0))"
  shows "AttachToWindow napi os info (instance_after napi cs) =
           (returns False, instance_after napi cs,
            if hwnd_of_arg napi (info ! 0) = 0 then [] else [Call_IsWindow (hwnd_of_arg napi (info ! 0))]) \<and>
         (\<not> m_isAttached (instance_after napi cs) \<longrightarrow>
            Unattached (fst (snd (AttachToWindow napi os info (instance_after napi cs)))))"
  using assms instance_after_unattached [of napi cs]
  by (auto simp: AttachToWindow_def Let_def)

theorem AttachToWindow_invalid_handle_witness:
  "[JSNumber (0x9999::int)] \<noteq> [] \<and> \<not> os_IsWindow os_ok (hwnd_of_arg napi_int (JSNumber 0x9999)) \<and>
   \<not> m_isAttached (instance_after napi_int []) \<and>
   AttachToWindow napi_int os_ok [JSNumber 0x9999] (instance_after napi_int []) =
     (returns False, instance_after napi_int [], [Call_IsWindow 0x9999]) \<and>
   Unattached (fst (snd (AttachToWindow napi_int os_ok [JSNumber 0x9999] (instance_after napi_int []))))"
proof -
  have arg: "hwnd_of_arg napi_int (JSNumber 0x9999) = 0x9999"
    by (simp add: hwnd_of_arg_def napi_int_def)
  have dead: "\<not> os_IsWindow os_ok (hwnd_of_arg napi_int ([JSNumber 0x9999] ! 0))"
    by (simp add: arg os_ok_def)
  have fresh: "\<not> m_isAttached (instance_after napi_int [])"
    by (simp add: instance_after_def new_EDrawingsPreview_def)
  from AttachToWindow_invalid_handle [of "[JSNumber 0x9999]" napi_int os_ok "[]"] dead fresh
  show ?thesis by (auto simp: arg)
qed

lemma Unattached_fields:
  "Unattached s \<Longrightarrow> s\<lparr>m_hwndContainer := 0\<rparr> = s \<and> s\<lparr>m_pControl := 0\<rparr> = s \<and> s\<lparr>m_pDispatch := 0\<rparr> = s"
  by (cases s) (simp add: Unattached_def)

lemma CoCreateInstance_failed_null:
  "FAILED (fst (CoCreateInstance os)) \<Longrightarrow> snd (CoCreateInstance os) = 0"
  by (simp add: CoCreateInstance_def com_out_def)

lemma QueryInterface_failed_null:
  "FAILED (fst (QueryInterface os p)) \<Longrightarrow> snd (QueryInterface os p) = 0"
  by (simp add: QueryInterface_def com_out_def)

lemma CreateControl_failure:
  assumes "Unattached s"
    and "os_CreateWindowExW os hwnd = 0 \<or> FAILED (fst (CoCreateInstance os)) \<or>
         snd (CoCreateInstance os) = 0 \<or>
         FAILED (fst (QueryInterface os (snd (CoCreateInstance os))))"
  shows "CreateControl os hwnd s =
     (False, s,
      if os_CreateWindowExW os hwnd = 0 then [Call_RegisterClassExW, Call_CreateWindowExW hwnd]
      else if FAILED (fst (CoCreateInstance os)) \<or> snd (CoCreateInstance os) = 0
      then [Call_RegisterClassExW, Call_CreateWindowExW hwnd, Call_CoCreateInstance,
            Call_DestroyWindow (os_CreateWindowExW os hwnd)]
      else [Call_RegisterClassExW, Call_CreateWindowExW hwnd, Call_CoCreateInstance,
            Call_QueryInterface (snd (CoCreateInstance os)),
            Call_Release (snd (CoCreateInstance os)),
            Call_DestroyWindow (os_CreateWindowExW os hwnd)])"
  using assms Unattached_fields [OF assms(1)]
    CoCreateInstance_failed_null [of os]
    QueryInterface_failed_null [of os "snd (CoCreateInstance os)"]
  by (auto simp: CreateControl_def Unattached_def Let_def case_prod_beta)

text \<open>
  Claim C5. On an instance that is not attached, \<open>attachToWindow\<close> fails when the parent
  handle is null or not a live window, when the container window cannot be created, when
  the control cannot be instantiated, or when the dispatch interface cannot be queried.
  At each of these steps it returns false and leaves the instance exactly as it was before
  the call, which is Unattached with the loaded flag false. The calls it has made by then
  end with the release of the control it had obtained and the destruction of the container
  window it had created.
\<close>

theorem AttachToWindow_failure_releases:
  assumes "\<not> m_isAttached (instance_after napi cs)" and "info \<noteq> []"
    and "hwnd_of_arg napi (info ! 0) = 0 \<or>
         \<not> os_IsWindow os (hwnd_of_arg napi (info ! 0)) \<or>
         os_CreateWindowExW os (hwnd_of_arg napi (info ! 0)) = 0 \<or>
         FAILED (fst (CoCreateInstance os)) \<or> snd (CoCreateInstance os) = 0 \<or>
         FAILED (fst (QueryInterface os (snd (CoCreateInstance os))))"
  shows "AttachToWindow napi os info (instance_after napi cs) =
     (returns False, instance_after napi cs,
      if hwnd_of_arg napi (info ! 0) = 0 then []
      else if \<not> os_IsWindow os (hwnd_of_arg napi (info ! 0))
      then [Call_IsWindow (hwnd_of_arg napi (info ! 0))]
      else if os_CreateWindowExW os (hwnd_of_arg napi (info ! 0)) = 0
      then [Call_IsWindow (hwnd_of_arg napi (info ! 0)), Call_RegisterClassExW,
            Call_CreateWindowExW (hwnd_of_arg napi (info ! 0))]
      else if FAILED (fst (CoCreateInstance os)) \<or> snd (CoCreateInstance os) = 0
      then [Call_IsWindow (hwnd_of_arg napi (info ! 0)), Call_RegisterClassExW,
            Call_CreateWindowExW (hwnd_of_arg napi (info ! 0)), Call_CoCreateInstance,
            Call_DestroyWindow (os_CreateWindowExW os (hwnd_of_arg napi (info ! 0)))]
      else [Call_IsWindow (hwnd_of_arg napi (info ! 0)), Call_RegisterClassExW,
            Call_CreateWindowExW (hwnd_of_arg napi (info ! 0)), Call_CoCreateInstance,
            Call_QueryInterface (snd (CoCreateInstance os)),
            Call_Release (snd (CoCreateInstance os)),
            Call_DestroyWindow (os_CreateWindowExW os (hwnd_of_arg napi (info ! 0)))]) \<and>
     Unattached (instance_after napi cs) \<and> \<not> m_isFileLoaded (instance_after napi cs)"
proof -
  let ?s = "instance_after napi cs"
  let ?hwnd = "hwnd_of_arg napi (info ! 0)"
  have un: "Unattached ?s" using assms(1) by (rule instance_after_unattached)
  have nl: "\<not> m_isFileLoaded ?s"
    using assms(1) instance_after_consistent [of napi cs] by (simp add: consistent_def)
  show ?thesis
  proof (cases "?hwnd = 0 \<or> \<not> os_IsWindow os ?hwnd")
    case True
    then show ?thesis using assms(2) un nl by (auto simp: AttachToWindow_def Let_def)
  next
    case False
    with assms(3) have "os_CreateWindowExW os ?hwnd = 0 \<or> FAILED (fst (CoCreateInstance os)) \<or>
         snd (CoCreateInstance os) = 0 \<or>
         FAILED (fst (QueryInterface os (snd (CoCreateInstance os))))"
      by blast
    from CreateControl_failure [OF un this] False assms(2) un nl
    show ?thesis by (simp add: AttachToWindow_def Let_def)
  qed
qed

theorem AttachToWindow_failure_releases_witness:
  "\<not> m_isAttached (instance_after napi_int []) \<and> [JSNumber (0x1234::int)] \<noteq> [] \<and>
   FAILED (fst (QueryInterface os_no_dispatch (snd (CoCreateInstance os_no_dispatch)))) \<and>
   AttachToWindow napi_int os_no_dispatch [JSNumber 0x1234] (instance_after napi_int []) =
     (returns False, new_EDrawingsPreview,
      [Call_IsWindow 0x1234, Call_RegisterClassExW, Call_CreateWindowExW 0x1234,
       Call_CoCreateInstance, Call_QueryInterface 0x1000, Call_Release 0x1000,
       Call_DestroyWindow 0x5678]) \<and>
   Unattached new_EDrawingsPreview \<and> \<not> m_isFileLoaded new_EDrawingsPreview"
proof -
  have fresh: "\<not> m_isAttached (instance_after napi_int [])"
    by (simp add: instance_after_def new_EDrawingsPreview_def)
  have new: "instance_after napi_int [] = new_EDrawingsPreview"
    by (simp add: instance_after_def)
  have arg: "hwnd_of_arg napi_int (JSNumber 0x1234) = 0x1234"
    by (simp add: hwnd_of_arg_def napi_int_def)
  have live: "os_IsWindow os_no_dispatch 0x1234"
    by (simp add: os_no_dispatch_def os_ok_def)
  have win: "os_CreateWindowExW os_no_dispatch 0x1234 = 0x5678"
    by (simp add: os_no_dispatch_def os_ok_def)
  have ctl: "CoCreateInstance os_no_dispatch = (S_OK, 0x1000)"
    by (simp add: CoCreateInstance_def com_out_def os_no_dispatch_def os_ok_def FAILED_def S_OK_def)
  have ok: "\<not> FAILED S_OK" by (simp add: FAILED_def S_OK_def)
  have qi: "FAILED (fst (QueryInterface os_no_dispatch (snd (CoCreateInstance os_no_dispatch))))"
    by (simp add: ctl QueryInterface_def com_out_def os_no_dispatch_def FAILED_def E_FAIL_def)
  have step: "hwnd_of_arg napi_int ([JSNumber 0x1234] ! 0) = 0 \<or>
         \<not> os_IsWindow os_no_dispatch (hwnd_of_arg napi_int ([JSNumber 0x1234] ! 0)) \<or>
         os_CreateWindowExW os_no_dispatch (hwnd_of_arg napi_int ([JSNumber 0x1234] ! 0)) = 0 \<or>
         FAILED (fst (CoCreateInstance os_no_dispatch)) \<or> snd (CoCreateInstance os_no_dispatch) = 0 \<or>
         FAILED (fst (QueryInterface os_no_dispatch (snd (CoCreateInstance os_no_dispatch))))"
    using qi by (simp only: simp_thms)
  have nonempty: "[JSNumber (0x1234::int)] \<noteq> []" by simp
  from AttachToWindow_failure_releases [OF fresh nonempty step]
  have "AttachToWindow napi_int os_no_dispatch [JSNumber 0x1234] (instance_after napi_int []) =
     (returns False, new_EDrawingsPreview,
      [Call_IsWindow 0x1234, Call_RegisterClassExW, Call_CreateWindowExW 0x1234,
       Call_CoCreateInstance, Call_QueryInterface 0x1000, Call_Release 0x1000,
       Call_DestroyWindow 0x5678]) \<and>
     Unattached new_EDrawingsPreview \<and> \<not> m_isFileLoaded new_EDrawingsPreview"
    by (simp add: arg live win ctl ok new)
  with fresh qi show ?thesis by simp
qed

subsection \<open>Loading\<close>

text \<open>
  Claim C3. On an attached instance, whenever \<open>loadFile\<close> returns false the instance is
  attached with the loaded flag false afterwards, also when an earlier load had succeeded.
\<close>

theorem LoadFile_failure:
  assumes "m_isAttached (instance_after napi cs)"
    and "fst (LoadFile os info (instance_after napi cs)) = returns False"
  shows "m_isAttached (fst (snd (LoadFile os info (instance_after napi cs)))) \<and>
         \<not> m_isFileLoaded (fst (snd (LoadFile os info (instance_after napi cs))))"
  using assms instance_after_consistent [of napi cs]
  by (auto simp: LoadFile_def consistent_def returns_def throws_TypeError_def Let_def
      split: prod.splits if_splits)

theorem LoadFile_failure_witness:
  "m_isAttached loaded_instance \<and> m_isFileLoaded loaded_instance \<and>
   fst (LoadFile os_load_fails [JSString part_file :: int js_value] loaded_instance) = returns False \<and>
   m_isAttached (fst (snd (LoadFile os_load_fails [JSString part_file :: int js_value] loaded_instance))) \<and>
   \<not> m_isFileLoaded (fst (snd (LoadFile os_load_fails [JSString part_file :: int js_value] loaded_instance)))"
proof -
  have pre: "m_isAttached loaded_instance \<and> m_isFileLoaded loaded_instance"
    by (simp add: loaded_instance_eq)
  have fails: "fst (LoadFile os_load_fails [JSString part_file :: int js_value] loaded_instance) =
      returns False"
    by (simp add: LoadFile_def loaded_instance_eq os_load_fails_def os_ok_def
        SUCCEEDED_def S_OK_def E_FAIL_def Let_def)
  from pre have att: "m_isAttached loaded_instance" by simp
  from LoadFile_failure [OF att [unfolded loaded_instance_def], folded loaded_instance_def,
      OF fails] pre fails
  show ?thesis by simp
qed

subsection \<open>Errors at the call boundary\<close>

lemma AttachToWindow_exception:
  "exception (fst (AttachToWindow napi os info s)) \<noteq> None \<longleftrightarrow> info = []"
  by (auto simp: AttachToWindow_def returns_def throws_TypeError_def Let_def split: prod.splits)

lemma AttachToWindow_wrong_type:
  "info \<noteq> [] \<Longrightarrow> \<not> IsNumber (info ! 0) \<Longrightarrow> \<not> IsBuffer (info ! 0) \<Longrightarrow>
     AttachToWindow napi os info s = (returns False, s, [])"
  by (simp add: AttachToWindow_def hwnd_of_arg_def)

lemma LoadFile_exception:
  "exception (fst (LoadFile os info s)) \<noteq> None \<longleftrightarrow>
     m_isAttached s \<and> m_pDispatch s \<noteq> 0 \<and> (info = [] \<or> \<not> IsString (info ! 0))"
  by (auto simp: LoadFile_def returns_def throws_TypeError_def Let_def split: prod.splits)

lemma LoadFile_raise_state:
  "exception (fst (LoadFile os info s)) \<noteq> None \<Longrightarrow> fst (snd (LoadFile os info s)) = s"
  by (auto simp: LoadFile_def returns_def throws_TypeError_def Let_def split: prod.splits if_splits)

lemma SetBounds_exception:
  "exception (fst (SetBounds napi os info s)) \<noteq> None \<longleftrightarrow>
     m_hwndContainer s \<noteq> 0 \<and>
     (length info < 4 \<or>
      \<not> (IsNumber (info ! 0) \<and> IsNumber (info ! 1) \<and> IsNumber (info ! 2) \<and> IsNumber (info ! 3)))"
proof (cases "m_hwndContainer s = 0 \<or> length info < 4")
  case True
  then show ?thesis by (auto simp: SetBounds_def returns_def throws_TypeError_def)
next
  case False
  then have window: "m_hwndContainer s \<noteq> 0" and len: "4 \<le> length info" by auto
  show ?thesis
  proof (cases "IsNumber (info ! 0) \<and> IsNumber (info ! 1) \<and> IsNumber (info ! 2) \<and> IsNumber (info ! 3)")
    case True
    from SetBounds_numbers [OF window len True, of napi os] True window len
    show ?thesis by (simp add: returns_def)
  next
    case False
    from SetBounds_not_numbers [OF window len False, of napi os] False window
    show ?thesis by simp
  qed
qed

text \<open>
  Claim C4, as stated, asks that every call of \<open>attachToWindow\<close>, \<open>loadFile\<close> and
  \<open>setBounds\<close> with the wrong arity or a wrong argument type raises. On a new instance,
  \<open>loadFile\<close> with no argument, \<open>setBounds\<close> with one argument or with four strings, and
  \<open>attachToWindow\<close> with a string each return false and raise nothing; so does
  \<open>loadFile\<close> with no argument on an attached instance whose dispatch query succeeded
  with a null reference.
\<close>

theorem wrong_arguments_return_false:
  "LoadFile os_ok ([] :: int js_value list) new_EDrawingsPreview =
     (\<lparr>exception = None, retval = False\<rparr>, new_EDrawingsPreview, []) \<and>
   SetBounds napi_int os_ok [JSNumber 1] new_EDrawingsPreview =
     (\<lparr>exception = None, retval = False\<rparr>, new_EDrawingsPreview, []) \<and>
   SetBounds napi_int os_ok [JSString ''a'', JSString ''b'', JSString ''c'', JSString ''d'']
       new_EDrawingsPreview =
     (\<lparr>exception = None, retval = False\<rparr>, new_EDrawingsPreview, []) \<and>
   AttachToWindow napi_int os_ok [JSString ''window''] new_EDrawingsPreview =
     (\<lparr>exception = None, retval = False\<rparr>, new_EDrawingsPreview, []) \<and>
   m_isAttached
     (instance_after napi_int [(js_attachToWindow [JSNumber 0x1234], os_null_dispatch)]) \<and>
   fst (LoadFile os_ok ([] :: int js_value list)
     (instance_after napi_int [(js_attachToWindow [JSNumber 0x1234], os_null_dispatch)])) =
     \<lparr>exception = None, retval = False\<rparr>"
  by (simp add: LoadFile_def SetBounds_def AttachToWindow_def hwnd_of_arg_def
      new_EDrawingsPreview_def returns_def instance_after_def CreateControl_def napi_int_def
      os_null_dispatch_def os_ok_def CoCreateInstance_def QueryInterface_def com_out_def
      FAILED_def S_OK_def Let_def)

text \<open>
  Claim C4, amended. A call raises a type error, synchronously, in exactly these cases:
  \<open>attachToWindow\<close> with no argument; \<open>loadFile\<close> with no argument or with a first
  argument that is not a string, on an instance that is attached and holds a dispatch
  reference; \<open>setBounds\<close> with fewer than four arguments or with one of the first four not
  a number, on an attached instance. A call that raises leaves the instance unchanged.
  Every other call raises nothing, so a boolean false is not kept for operational
  failures: \<open>attachToWindow\<close> with an argument that is neither a number nor a buffer
  returns false, \<open>loadFile\<close> on an instance that is not attached or holds no dispatch
  reference returns false whatever its arguments, and so does \<open>setBounds\<close> on an instance
  that is not attached.
\<close>

theorem TypeError_at_call_boundary:
  assumes "s = instance_after napi cs"
  shows "(exception (fst (AttachToWindow napi os info s)) \<noteq> None \<longleftrightarrow> info = []) \<and>
     (exception (fst (LoadFile os info s)) \<noteq> None \<longleftrightarrow>
        m_isAttached s \<and> m_pDispatch s \<noteq> 0 \<and> (info = [] \<or> \<not> IsString (info ! 0))) \<and>
     (exception (fst (SetBounds napi os info s)) \<noteq> None \<longleftrightarrow>
        m_isAttached s \<and>
        (length info < 4 \<or>
         \<not> (IsNumber (info ! 0) \<and> IsNumber (info ! 1) \<and> IsNumber (info ! 2) \<and> IsNumber (info ! 3)))) \<and>
     (exception (fst (AttachToWindow napi os info s)) \<noteq> None \<longrightarrow>
        fst (snd (AttachToWindow napi os info s)) = s) \<and>
     (exception (fst (LoadFile os info s)) \<noteq> None \<longrightarrow> fst (snd (LoadFile os info s)) = s) \<and>
     (exception (fst (SetBounds napi os info s)) \<noteq> None \<longrightarrow>
        fst (snd (SetBounds napi os info s)) = s) \<and>
     (info \<noteq> [] \<and> \<not> IsNumber (info ! 0) \<and> \<not> IsBuffer (info ! 0) \<longrightarrow>
        AttachToWindow napi os info s = (returns False, s, [])) \<and>
     (\<not> (m_isAttached s \<and> m_pDispatch s \<noteq> 0) \<longrightarrow> LoadFile os info s = (returns False, s, [])) \<and>
     (\<not> m_isAttached s \<longrightarrow> SetBounds napi os info s = (returns False, s, []))"
proof -
  have window: "m_hwndContainer s \<noteq> 0 \<longleftrightarrow> m_isAttached s"
    using assms instance_after_consistent [of napi cs] by (auto simp: consistent_def split: if_splits)
  have 1: "exception (fst (AttachToWindow napi os info s)) \<noteq> None \<longleftrightarrow> info = []"
    by (rule AttachToWindow_exception)
  have 2: "exception (fst (LoadFile os info s)) \<noteq> None \<longleftrightarrow>
        m_isAttached s \<and> m_pDispatch s \<noteq> 0 \<and> (info = [] \<or> \<not> IsString (info ! 0))"
    by (rule LoadFile_exception)
  have 3: "exception (fst (SetBounds napi os info s)) \<noteq> None \<longleftrightarrow>
        m_isAttached s \<and>
        (length info < 4 \<or>
         \<not> (IsNumber (info ! 0) \<and> IsNumber (info ! 1) \<and> IsNumber (info ! 2) \<and> IsNumber (info ! 3)))"
    using SetBounds_exception [of napi os info s] window by simp
  have 4: "exception (fst (AttachToWindow napi os info s)) \<noteq> None \<longrightarrow>
        fst (snd (AttachToWindow napi os info s)) = s"
    using 1 by (auto simp: AttachToWindow_def)
  have 5: "exception (fst (LoadFile os info s)) \<noteq> None \<longrightarrow> fst (snd (LoadFile os info s)) = s"
    using LoadFile_raise_state [of os info s] by blast
  have 6: "exception (fst (SetBounds napi os info s)) \<noteq> None \<longrightarrow>
        fst (snd (SetBounds napi os info s)) = s"
    by (simp add: SetBounds_state)
  have 7: "info \<noteq> [] \<and> \<not> IsNumber (info ! 0) \<and> \<not> IsBuffer (info ! 0) \<longrightarrow>
        AttachToWindow napi os info s = (returns False, s, [])"
    using AttachToWindow_wrong_type [of info napi os s] by blast
  have 8: "\<not> (m_isAttached s \<and> m_pDispatch s \<noteq> 0) \<longrightarrow> LoadFile os info s = (returns False, s, [])"
    by (auto simp: LoadFile_def)
  have 9: "\<not> m_isAttached s \<longrightarrow> SetBounds napi os info s = (returns False, s, [])"
    using window by (simp add: SetBounds_def)
  from 1 2 3 4 5 6 7 8 9 show ?thesis by blast
qed

theorem TypeError_at_call_boundary_witness:
  "exception (fst (AttachToWindow napi_int os_ok [] new_EDrawingsPreview)) \<noteq> None \<and>
   fst (snd (AttachToWindow napi_int os_ok [] new_EDrawingsPreview)) = new_EDrawingsPreview \<and>
   m_isAttached loaded_instance \<and> m_pDispatch loaded_instance \<noteq> 0 \<and>
   \<not> IsString ([JSNumber (5::int)] ! 0) \<and>
   exception (fst (LoadFile os_ok [JSNumber (5::int)] loaded_instance)) \<noteq> None \<and>
   fst (snd (LoadFile os_ok [JSNumber (5::int)] loaded_instance)) = loaded_instance \<and>
   length [JSNumber (1::int)] < 4 \<and>
   exception (fst (SetBounds napi_int os_ok [JSNumber 1] loaded_instance)) \<noteq> None \<and>
   fst (snd (SetBounds napi_int os_ok [JSNumber 1] loaded_instance)) = loaded_instance \<and>
   \<not> m_isAttached new_EDrawingsPreview \<and>
   \<not> IsNumber ([JSString ''window'' :: int js_value] ! 0) \<and>
   \<not> IsBuffer ([JSString ''window'' :: int js_value] ! 0) \<and>
   AttachToWindow napi_int os_ok [JSString ''window''] new_EDrawingsPreview =
     (returns False, new_EDrawingsPreview, []) \<and>
   LoadFile os_ok ([] :: int js_value list) new_EDrawingsPreview =
     (returns False, new_EDrawingsPreview, []) \<and>
   SetBounds napi_int os_ok [] new_EDrawingsPreview = (returns False, new_EDrawingsPreview, [])"
proof -
  have new: "new_EDrawingsPreview = instance_after napi_int []"
    by (simp add: instance_after_def)
  have fresh: "\<not> m_isAttached new_EDrawingsPreview" by (simp add: new_EDrawingsPreview_def)
  have loaded: "m_isAttached loaded_instance \<and> m_pDispatch loaded_instance \<noteq> 0"
    by (simp add: loaded_instance_eq)
  have types: "\<not> IsString ([JSNumber (5::int)] ! 0) \<and>
      \<not> IsNumber ([JSString ''window'' :: int js_value] ! 0) \<and>
      \<not> IsBuffer ([JSString ''window'' :: int js_value] ! 0)"
    by simp
  note on_new = TypeError_at_call_boundary [OF new, of os_ok]
  note on_loaded = TypeError_at_call_boundary [OF loaded_instance_def, of os_ok]
  from on_new [of "[]"] fresh
  have a: "exception (fst (AttachToWindow napi_int os_ok [] new_EDrawingsPreview)) \<noteq> None \<and>
      fst (snd (AttachToWindow napi_int os_ok [] new_EDrawingsPreview)) = new_EDrawingsPreview \<and>
      LoadFile os_ok ([] :: int js_value list) new_EDrawingsPreview =
        (returns False, new_EDrawingsPreview, []) \<and>
      SetBounds napi_int os_ok [] new_EDrawingsPreview = (returns False, new_EDrawingsPreview, [])"
    by simp
  from on_new [of "[JSString ''window'']"] types
  have b: "AttachToWindow napi_int os_ok [JSString ''window''] new_EDrawingsPreview =
      (returns False, new_EDrawingsPreview, [])"
    by simp
  from on_loaded [of "[JSNumber 5]"] loaded types
  have c: "exception (fst (LoadFile os_ok [JSNumber (5::int)] loaded_instance)) \<noteq> None \<and>
      fst (snd (LoadFile os_ok [JSNumber (5::int)] loaded_instance)) = loaded_instance"
    by simp
  from on_loaded [of "[JSNumber 1]"] loaded
  have d: "exception (fst (SetBounds napi_int os_ok [JSNumber 1] loaded_instance)) \<noteq> None \<and>
      fst (snd (SetBounds napi_int os_ok [JSNumber 1] loaded_instance)) = loaded_instance"
    by simp
  from a b c d fresh loaded types show ?thesis by simp
qed

subsection \<open>Installation discovery\<close>

lemma probe_paths_found:
  "i < length ps \<Longrightarrow> ex (ps ! i) \<Longrightarrow> \<forall>j<i. \<not> ex (ps ! j) \<Longrightarrow>
     probe_paths ex ps = (Some (ps ! i), map Call_PathFileExistsW (take (Suc i) ps))"
proof (induction ps arbitrary: i)
  case Nil
  then show ?case by simp
next
  case (Cons p ps)
  show ?case
  proof (cases i)
    case 0
    with Cons.prems show ?thesis by simp
  next
    case (Suc k)
    with Cons.prems have "\<not> ex p" by auto
    moreover have "probe_paths ex ps = (Some (ps ! k), map Call_PathFileExistsW (take (Suc k) ps))"
      using Cons.prems Suc by (intro Cons.IH) auto
    ultimately show ?thesis using Suc by simp
  qed
qed

lemma probe_paths_none:
  "\<forall>p\<in>set ps. \<not> ex p \<Longrightarrow> probe_paths ex ps = (None, map Call_PathFileExistsW ps)"
  by (induction ps) auto

lemma probe_paths_queries: "list_all is_query (snd (probe_paths ex ps))"
  by (induction ps) (auto split: prod.splits)

lemma paths_length: "length paths = 4"
  by (simp add: paths_def)

lemma paths_distinct: "distinct paths"
  by (simp add: paths_def L_def)

lemma char_of_unat_of_char: "char_of (unat (of_char a :: 16 word)) = a"
proof -
  have "(of_char a :: 16 word) = of_nat (of_char a)" by (simp only: of_nat_of_char)
  then have "unat (of_char a :: 16 word) = (of_char a :: nat) mod 2 ^ 16"
    by (simp only: unat_of_nat len_of_numeral_defs) simp
  moreover have "(of_char a :: nat) < 2 ^ 16"
    by (rule less_trans [OF nat_of_char_less_256]) simp
  ultimately have "unat (of_char a :: 16 word) = (of_char a :: nat)" by simp
  then show ?thesis by simp
qed

lemma ascii_L: "ascii (L s) = s"
  by (induction s) (simp_all add: ascii_def L_def char_of_unat_of_char)

text \<open>
  Claim C9. \<open>checkInstalled\<close> takes no instance and returns none, and every call it
  makes only reads the system. It probes the four fixed paths in order and returns the
  first that exists as \<open>{installed: true, path}\<close> without probing further or touching
  the registry. When none exists it opens the registry key: if the key opens and the value
  is read, the value is the path; otherwise the result is \<open>{installed: false}\<close> with no
  path. A key that was opened is closed.
\<close>

theorem CheckEDrawingsInstalled_result:
  "list_all is_query (snd (CheckEDrawingsInstalled utf8 env)) \<and>
   (\<forall>i<length paths.
      sys_PathFileExistsW env (paths ! i) \<and> (\<forall>j<i. \<not> sys_PathFileExistsW env (paths ! j)) \<longrightarrow>
      CheckEDrawingsInstalled utf8 env =
        (\<lparr>installed = True, path = Some (utf8 (paths ! i))\<rparr>,
         map Call_PathFileExistsW (take (Suc i) paths))) \<and>
   ((\<forall>p\<in>set paths. \<not> sys_PathFileExistsW env p) \<longrightarrow>
      CheckEDrawingsInstalled utf8 env =
        (if sys_RegOpenKeyExW env = ERROR_SUCCESS \<and> fst (sys_RegQueryValueExW env) = ERROR_SUCCESS
         then \<lparr>installed = True, path = Some (utf8 (snd (sys_RegQueryValueExW env)))\<rparr>
         else \<lparr>installed = False, path = None\<rparr>,
         map Call_PathFileExistsW paths @
           (if sys_RegOpenKeyExW env = ERROR_SUCCESS
            then [Call_RegOpenKeyExW, Call_RegQueryValueExW, Call_RegCloseKey]
            else [Call_RegOpenKeyExW])))"
proof (intro conjI allI impI)
  show "list_all is_query (snd (CheckEDrawingsInstalled utf8 env))"
    using probe_paths_queries [of "sys_PathFileExistsW env" paths]
    by (auto simp: CheckEDrawingsInstalled_def Let_def split: prod.splits option.splits)
next
  fix i
  assume "i < length paths"
    and "sys_PathFileExistsW env (paths ! i) \<and> (\<forall>j<i. \<not> sys_PathFileExistsW env (paths ! j))"
  then have "probe_paths (sys_PathFileExistsW env) paths =
      (Some (paths ! i), map Call_PathFileExistsW (take (Suc i) paths))"
    by (intro probe_paths_found) auto
  then show "CheckEDrawingsInstalled utf8 env =
        (\<lparr>installed = True, path = Some (utf8 (paths ! i))\<rparr>,
         map Call_PathFileExistsW (take (Suc i) paths))"
    by (simp add: CheckEDrawingsInstalled_def)
next
  assume "\<forall>p\<in>set paths. \<not> sys_PathFileExistsW env p"
  then have "probe_paths (sys_PathFileExistsW env) paths = (None, map Call_PathFileExistsW paths)"
    by (rule probe_paths_none)
  then show "CheckEDrawingsInstalled utf8 env =
        (if sys_RegOpenKeyExW env = ERROR_SUCCESS \<and> fst (sys_RegQueryValueExW env) = ERROR_SUCCESS
         then \<lparr>installed = True, path = Some (utf8 (snd (sys_RegQueryValueExW env)))\<rparr>
         else \<lparr>installed = False, path = None\<rparr>,
         map Call_PathFileExistsW paths @
           (if sys_RegOpenKeyExW env = ERROR_SUCCESS
            then [Call_RegOpenKeyExW, Call_RegQueryValueExW, Call_RegCloseKey]
            else [Call_RegOpenKeyExW]))"
    by (simp add: CheckEDrawingsInstalled_def Let_def split: prod.splits)
qed

theorem CheckEDrawingsInstalled_result_witness:
  "2 < length paths \<and> sys_PathFileExistsW sys_third (paths ! 2) \<and>
   \<not> sys_PathFileExistsW sys_third (paths ! 0) \<and>
   \<not> sys_PathFileExistsW sys_third (paths ! 1) \<and>
   fst (CheckEDrawingsInstalled ascii sys_third) =
     \<lparr>installed = True,
      path = Some (win_path [''C:'', ''Program Files (x86)'', ''eDrawings'', ''eDrawings.exe''])\<rparr> \<and>
   \<not> sys_PathFileExistsW sys_none (paths ! 0) \<and> \<not> sys_PathFileExistsW sys_none (paths ! 1) \<and>
   \<not> sys_PathFileExistsW sys_none (paths ! 2) \<and> \<not> sys_PathFileExistsW sys_none (paths ! 3) \<and>
   fst (CheckEDrawingsInstalled ascii sys_none) = \<lparr>installed = False, path = None\<rparr> \<and>
   \<not> sys_PathFileExistsW sys_registry (paths ! 0) \<and>
   CheckEDrawingsInstalled ascii sys_registry =
     (\<lparr>installed = True, path = Some (win_path [''D:'', ''eDrawings''])\<rparr>,
      map Call_PathFileExistsW paths @ [Call_RegOpenKeyExW, Call_RegQueryValueExW, Call_RegCloseKey])"
proof -
  have len: "2 < length paths" by (simp add: paths_length)
  have third: "sys_PathFileExistsW sys_third (paths ! 2)"
    by (simp add: sys_third_def sys_none_def)
  have "paths ! 0 \<noteq> paths ! 2 \<and> paths ! 0 \<noteq> paths ! 3 \<and> paths ! 1 \<noteq> paths ! 2 \<and> paths ! 1 \<noteq> paths ! 3"
    using paths_distinct by (simp add: paths_length nth_eq_iff_index_eq)
  then have earlier: "\<forall>j<2. \<not> sys_PathFileExistsW sys_third (paths ! j)"
    by (simp add: sys_third_def sys_none_def less_Suc_eq numeral_2_eq_2)
  have p3: "ascii (paths ! 2) = win_path [''C:'', ''Program Files (x86)'', ''eDrawings'', ''eDrawings.exe'']"
    by (simp add: paths_def ascii_L)
  have none: "\<forall>p\<in>set paths. \<not> sys_PathFileExistsW sys_none p"
    by (simp add: sys_none_def)
  have none_reg: "sys_RegOpenKeyExW sys_none \<noteq> ERROR_SUCCESS"
    by (simp add: sys_none_def ERROR_SUCCESS_def ERROR_FILE_NOT_FOUND_def)
  have reg: "\<forall>p\<in>set paths. \<not> sys_PathFileExistsW sys_registry p"
    by (simp add: sys_registry_def sys_none_def)
  have reg_ok: "sys_RegOpenKeyExW sys_registry = ERROR_SUCCESS \<and>
      sys_RegQueryValueExW sys_registry = (ERROR_SUCCESS, L (win_path [''D:'', ''eDrawings'']))"
    by (simp add: sys_registry_def sys_none_def)
  from CheckEDrawingsInstalled_result [of ascii sys_third] len third earlier
  have 1: "fst (CheckEDrawingsInstalled ascii sys_third) =
      \<lparr>installed = True, path = Some (ascii (paths ! 2))\<rparr>"
    by auto
  from CheckEDrawingsInstalled_result [of ascii sys_none] none none_reg
  have 2: "fst (CheckEDrawingsInstalled ascii sys_none) = \<lparr>installed = False, path = None\<rparr>"
    by auto
  from CheckEDrawingsInstalled_result [of ascii sys_registry] reg reg_ok
  have 3: "CheckEDrawingsInstalled ascii sys_registry =
     (\<lparr>installed = True, path = Some (win_path [''D:'', ''eDrawings''])\<rparr>,
      map Call_PathFileExistsW paths @ [Call_RegOpenKeyExW, Call_RegQueryValueExW, Call_RegCloseKey])"
    by (auto simp: ascii_L)
  have first_two: "\<not> sys_PathFileExistsW sys_third (paths ! 0) \<and>
      \<not> sys_PathFileExistsW sys_third (paths ! 1)"
    using earlier [rule_format, of 0] earlier [rule_format, of 1] by simp
  have none4: "\<not> sys_PathFileExistsW sys_none (paths ! 0) \<and> \<not> sys_PathFileExistsW sys_none (paths ! 1) \<and>
      \<not> sys_PathFileExistsW sys_none (paths ! 2) \<and> \<not> sys_PathFileExistsW sys_none (paths ! 3)"
    by (simp add: sys_none_def)
  have reg1: "\<not> sys_PathFileExistsW sys_registry (paths ! 0)"
    by (simp add: sys_registry_def sys_none_def)
  from len third first_two 1 p3 none4 2 reg1 3 show ?thesis by simp
qed

end
